theory Spec2Isabelle
  imports Complex_Main "HOL-Library.Sublist" "HOL-Library.Multiset"
begin

section \<open>Job matching and recommendation: the embedding\<close>

text \<open>
  The functions of the matching service (\<^verbatim>\<open>utils/jobRecommendation.js\<close>):
  \<^verbatim>\<open>calculateMatchScore\<close>, \<^verbatim>\<open>calculateTotalExperience\<close>, \<^verbatim>\<open>getMatchReasons\<close>,
  \<^verbatim>\<open>getJobRecommendations\<close> and \<^verbatim>\<open>getSimilarJobs\<close>, over the fields of the mongoose
  schemas \<^verbatim>\<open>Job\<close>, \<^verbatim>\<open>JobSeekerProfile\<close> and \<^verbatim>\<open>Application\<close> that they read.

  Conventions of the embedding.
  \<^item> A field that may be \<^verbatim>\<open>undefined\<close> is an \<open>option\<close>; \<open>None\<close> is the absent field.
  \<^item> A JavaScript number is an exact rational (\<open>rat\<close>): the rounding of IEEE doubles is
    not modelled. The only number that can be \<^verbatim>\<open>NaN\<close> here is the experience total (a
    work-history entry without a usable date); it is a \<open>rat option\<close> with \<open>None\<close> for
    \<^verbatim>\<open>NaN\<close>, and every comparison with \<^verbatim>\<open>NaN\<close> is false.
  \<^item> A string is a \<open>char list\<close>; \<^verbatim>\<open>toLowerCase\<close> maps the letters A to Z and leaves
    every other character as it is.
  \<^item> \<^verbatim>\<open>new Date()\<close> is the parameter \<open>now\<close>. Of a date the code reads only
    \<^verbatim>\<open>getFullYear()\<close> and \<^verbatim>\<open>getMonth()\<close>, so a date is that pair.
  \<^item> The document store is a record of three lists, each in the order the store
    returns its documents.
\<close>

subsection \<open>Strings\<close>

definition lowerChar :: "char \<Rightarrow> char" where
  "lowerChar c =
     (let n = (of_char c :: nat) in if 65 \<le> n \<and> n \<le> 90 then char_of (n + 32) else c)"

definition toLowerCase :: "string \<Rightarrow> string" where
  "toLowerCase s = map lowerChar s"

text \<open>\<^verbatim>\<open>hay.includes(needle)\<close>: \<open>needle\<close> occurs in \<open>hay\<close> as a contiguous run. The empty
  string occurs in every string.\<close>

fun str_includes :: "string \<Rightarrow> string \<Rightarrow> bool" where
  "str_includes [] needle = (needle = [])"
| "str_includes (c # cs) needle = (prefix needle (c # cs) \<or> str_includes cs needle)"

text \<open>\<^verbatim>\<open>s || ''\<close> for an optional string.\<close>

definition or_empty :: "string option \<Rightarrow> string" where
  "or_empty s = (case s of None \<Rightarrow> [] | Some t \<Rightarrow> t)"

text \<open>\<^verbatim>\<open>xs.join(sep)\<close>.\<close>

fun join :: "string \<Rightarrow> string list \<Rightarrow> string" where
  "join sep [] = []"
| "join sep [x] = x"
| "join sep (x # y # ys) = x @ sep @ join sep (y # ys)"

text \<open>The decimal numeral of a natural number, as a template literal prints it.\<close>

fun digits :: "nat \<Rightarrow> nat \<Rightarrow> string" where
  "digits 0 n = []"
| "digits (Suc fuel) n =
     (if n < 10 then [char_of (48 + n)]
      else digits fuel (n div 10) @ [char_of (48 + n mod 10)])"

definition decimal :: "nat \<Rightarrow> string" where
  "decimal n = digits (Suc n) n"

subsection \<open>Numbers\<close>

text \<open>\<^verbatim>\<open>Math.round\<close>: the nearest integer, a half rounded up.\<close>

definition Math_round :: "rat \<Rightarrow> int" where
  "Math_round x = \<lfloor>x + 1 / 2\<rfloor>"

text \<open>\<^verbatim>\<open>a >= b\<close> and \<^verbatim>\<open>a > b\<close> where \<open>a\<close> may be \<^verbatim>\<open>NaN\<close>.\<close>

definition num_ge :: "rat option \<Rightarrow> rat \<Rightarrow> bool" where
  "num_ge a b = (case a of None \<Rightarrow> False | Some x \<Rightarrow> b \<le> x)"

definition num_gt :: "rat option \<Rightarrow> rat \<Rightarrow> bool" where
  "num_gt a b = (case a of None \<Rightarrow> False | Some x \<Rightarrow> b < x)"

text \<open>The truthiness of an optional number: present and not zero.\<close>

definition truthy :: "rat option \<Rightarrow> bool" where
  "truthy a = (case a of None \<Rightarrow> False | Some x \<Rightarrow> x \<noteq> 0)"

text \<open>\<^verbatim>\<open>a || 0\<close> for an optional number.\<close>

definition or_zero :: "rat option \<Rightarrow> rat" where
  "or_zero a = (case a of None \<Rightarrow> 0 | Some x \<Rightarrow> x)"

subsection \<open>The documents\<close>

text \<open>A date as the code reads it: \<^verbatim>\<open>(getFullYear(), getMonth())\<close>.\<close>

type_synonym date = "int \<times> int"

record Experience =
  startDate :: "date option"
  endDate :: "date option"
  current :: bool

record Education =
  fieldOfStudy :: "string option"

text \<open>The \<^verbatim>\<open>location\<close> of a job and of a profile; a profile's has no \<^verbatim>\<open>remote\<close> flag
  and the code never reads one there.\<close>

record Location =
  city :: "string option"
  country :: "string option"
  remote :: bool

text \<open>\<^verbatim>\<open>salary\<close> of a job and \<^verbatim>\<open>expectedSalary\<close> of a profile; the fields are
  \<^verbatim>\<open>min\<close> and \<^verbatim>\<open>max\<close> in the source.\<close>

record Salary =
  smin :: "rat option"
  smax :: "rat option"

record Requirements =
  req_skills :: "string list option"

record Job =
  job_id :: string
  title :: "string option"
  description :: "string option"
  requirements :: "Requirements option"
  jobType :: "string option"
  location :: "Location option"
  salary :: "Salary option"
  status :: string
  createdAt :: int

text \<open>The profile's \<^verbatim>\<open>location\<close> field is \<open>plocation\<close> here.\<close>

record JobSeekerProfile =
  user :: string
  skills :: "string list option"
  experience :: "Experience list option"
  education :: "Education list option"
  plocation :: "Location option"
  preferredJobTypes :: "string list option"
  expectedSalary :: "Salary option"

record Application =
  app_job :: string
  jobSeeker :: string

subsection \<open>Total experience\<close>

text \<open>The months one entry adds: \<open>None\<close> is \<^verbatim>\<open>NaN\<close>, the result of reading the year of an
  invalid date (\<^verbatim>\<open>new Date(undefined)\<close>).\<close>

definition entry_months :: "date \<Rightarrow> Experience \<Rightarrow> int option" where
  "entry_months now entry =
     (case startDate entry of
        None \<Rightarrow> None
      | Some s \<Rightarrow>
          (case (if current entry then Some now else endDate entry) of
             None \<Rightarrow> None
           | Some e \<Rightarrow> Some (max 0 ((fst e - fst s) * 12 + (snd e - snd s)))))"

text \<open>The \<^verbatim>\<open>forEach\<close> loop, \<open>totalMonths\<close> threaded through.\<close>

fun totalMonths :: "date \<Rightarrow> Experience list \<Rightarrow> int option \<Rightarrow> int option" where
  "totalMonths now [] acc = acc"
| "totalMonths now (entry # rest) acc =
     totalMonths now rest
       (case acc of
          None \<Rightarrow> None
        | Some t \<Rightarrow> (case entry_months now entry of None \<Rightarrow> None | Some m \<Rightarrow> Some (t + m)))"

definition calculateTotalExperience :: "date \<Rightarrow> Experience list option \<Rightarrow> rat option" where
  "calculateTotalExperience now exps =
     (case exps of
        None \<Rightarrow> Some 0
      | Some es \<Rightarrow>
          if length es = 0 then Some 0
          else map_option (\<lambda>m. of_int m / 12) (totalMonths now es (Some 0)))"

subsection \<open>The match score\<close>

definition jobSkills :: "Job \<Rightarrow> string list" where
  "jobSkills job =
     (case requirements job of
        None \<Rightarrow> []
      | Some r \<Rightarrow> (case req_skills r of None \<Rightarrow> [] | Some ss \<Rightarrow> ss))"

text \<open>\<^verbatim>\<open>job.location?.remote\<close>, as a condition.\<close>

definition job_remote :: "Job \<Rightarrow> bool" where
  "job_remote job = (case location job of None \<Rightarrow> False | Some l \<Rightarrow> remote l)"

text \<open>The lower-cased city and country of a job and of a profile, empty when absent
  (\<^verbatim>\<open>(job.location?.city || '').toLowerCase()\<close>).\<close>

definition job_city :: "Job \<Rightarrow> string" where
  "job_city job = toLowerCase (case location job of None \<Rightarrow> [] | Some l \<Rightarrow> or_empty (city l))"

definition job_country :: "Job \<Rightarrow> string" where
  "job_country job =
     toLowerCase (case location job of None \<Rightarrow> [] | Some l \<Rightarrow> or_empty (country l))"

definition profile_city :: "JobSeekerProfile \<Rightarrow> string" where
  "profile_city profile =
     toLowerCase (case plocation profile of None \<Rightarrow> [] | Some l \<Rightarrow> or_empty (city l))"

definition profile_country :: "JobSeekerProfile \<Rightarrow> string" where
  "profile_country profile =
     toLowerCase (case plocation profile of None \<Rightarrow> [] | Some l \<Rightarrow> or_empty (country l))"

text \<open>The skills of the (lower-cased) first list that contain, or are contained in, a
  skill of the second.\<close>

definition matchedSkills :: "string list \<Rightarrow> string list \<Rightarrow> string list" where
  "matchedSkills profileSkills jobRequirements =
     filter (\<lambda>skill. list_ex (\<lambda>req. str_includes req skill \<or> str_includes skill req)
                        jobRequirements)
       profileSkills"

text \<open>The guards of the five factors.\<close>

definition skills_applies :: "Job \<Rightarrow> JobSeekerProfile \<Rightarrow> bool" where
  "skills_applies job profile =
     (case skills profile of
        None \<Rightarrow> False
      | Some ss \<Rightarrow> length ss > 0 \<and> length (jobSkills job) > 0)"

definition experience_applies :: "JobSeekerProfile \<Rightarrow> bool" where
  "experience_applies profile =
     (case experience profile of None \<Rightarrow> False | Some es \<Rightarrow> length es > 0)"

definition education_applies :: "JobSeekerProfile \<Rightarrow> bool" where
  "education_applies profile =
     (case education profile of None \<Rightarrow> False | Some es \<Rightarrow> length es > 0)"

definition location_applies :: "JobSeekerProfile \<Rightarrow> bool" where
  "location_applies profile = (plocation profile \<noteq> None)"

definition jobType_applies :: "JobSeekerProfile \<Rightarrow> bool" where
  "jobType_applies profile =
     (case preferredJobTypes profile of None \<Rightarrow> False | Some ts \<Rightarrow> length ts > 0)"

text \<open>The sub-score of each factor.\<close>

definition skillScore :: "Job \<Rightarrow> JobSeekerProfile \<Rightarrow> rat" where
  "skillScore job profile =
     (let profileSkills = map toLowerCase (case skills profile of None \<Rightarrow> [] | Some ss \<Rightarrow> ss);
          jobRequirements = map toLowerCase (jobSkills job)
      in of_nat (length (matchedSkills profileSkills jobRequirements))
           / of_nat (max (length jobRequirements) 1) * 100)"

definition jobTypeExpectation :: "string \<rightharpoonup> rat" where
  "jobTypeExpectation =
     [''full-time'' \<mapsto> 2, ''part-time'' \<mapsto> 1, ''contract'' \<mapsto> 3, ''internship'' \<mapsto> 0,
      ''temporary'' \<mapsto> 1]"

text \<open>\<^verbatim>\<open>jobTypeExpectation[job.jobType] || 2\<close>: the default also replaces an entry that
  is 0. (The names every object inherits, such as \<^verbatim>\<open>constructor\<close>, are not job types of
  the schema and are not modelled.)\<close>

definition expectedYears :: "Job \<Rightarrow> rat" where
  "expectedYears job =
     (case jobType job of
        None \<Rightarrow> 2
      | Some t \<Rightarrow>
          (case jobTypeExpectation t of
             None \<Rightarrow> 2
           | Some y \<Rightarrow> if y \<noteq> 0 then y else 2))"

definition experienceScore :: "date \<Rightarrow> Job \<Rightarrow> JobSeekerProfile \<Rightarrow> rat" where
  "experienceScore now job profile =
     (let totalYears = calculateTotalExperience now (experience profile);
          expected = expectedYears job
      in if num_ge totalYears expected then 100
         else if num_ge totalYears (expected * (1 / 2)) then 70
         else 40)"

definition hasRelevantEducation :: "Job \<Rightarrow> Education list \<Rightarrow> bool" where
  "hasRelevantEducation job edus =
     list_ex (\<lambda>edu.
        let field = toLowerCase (or_empty (fieldOfStudy edu));
            ttl = toLowerCase (or_empty (title job));
            dsc = toLowerCase (or_empty (description job))
        in str_includes ttl field \<or> str_includes dsc field \<or>
           str_includes field ''computer'' \<or> str_includes field ''engineering'' \<or>
           str_includes field ''business'') edus"

definition educationScore :: "Job \<Rightarrow> JobSeekerProfile \<Rightarrow> rat" where
  "educationScore job profile =
     (if hasRelevantEducation job (case education profile of None \<Rightarrow> [] | Some es \<Rightarrow> es)
      then 100 else 50)"

definition locationScore :: "Job \<Rightarrow> JobSeekerProfile \<Rightarrow> rat" where
  "locationScore job profile =
     (let profileCity = profile_city profile;
          profileCountry = profile_country profile;
          jobCity = job_city job;
          jobCountry = job_country job
      in if job_remote job then 100
         else if profileCity \<noteq> [] \<and> jobCity \<noteq> [] then
           (if str_includes jobCity profileCity \<or> str_includes profileCity jobCity then 100
            else if jobCountry = profileCountry then 70
            else 50)
         else if profileCountry \<noteq> [] \<and> jobCountry \<noteq> [] \<and> profileCountry = jobCountry then 70
         else 50)"

text \<open>\<^verbatim>\<open>profile.preferredJobTypes.includes(job.jobType)\<close>; the list holds strings, so an
  absent job type is not in it.\<close>

definition prefers_type :: "JobSeekerProfile \<Rightarrow> Job \<Rightarrow> bool" where
  "prefers_type profile job =
     (case (preferredJobTypes profile, jobType job) of
        (Some ts, Some t) \<Rightarrow> t \<in> set ts
      | _ \<Rightarrow> False)"

definition jobTypeScore :: "Job \<Rightarrow> JobSeekerProfile \<Rightarrow> rat" where
  "jobTypeScore job profile =
     (let s = 50;
          s = (if prefers_type profile job then 100 else s);
          s = (if ''remote'' \<in> set (case preferredJobTypes profile of None \<Rightarrow> [] | Some ts \<Rightarrow> ts)
                  \<and> job_remote job
               then 100 else s)
      in s)"

text \<open>The five guarded blocks, in the order of the source, each adding to \<open>score\<close> and
  to \<open>factors\<close>; the result is the pair before the normalisation.\<close>

definition weightedFactors :: "date \<Rightarrow> Job \<Rightarrow> JobSeekerProfile \<Rightarrow> rat \<times> rat" where
  "weightedFactors now job profile =
     (let (score, factors) = (0, 0);
          (score, factors) =
            (if skills_applies job profile
             then (score + skillScore job profile * (4 / 10), factors + 4 / 10)
             else (score, factors));
          (score, factors) =
            (if experience_applies profile
             then (score + experienceScore now job profile * (2 / 10), factors + 2 / 10)
             else (score, factors));
          (score, factors) =
            (if education_applies profile
             then (score + educationScore job profile * (15 / 100), factors + 15 / 100)
             else (score, factors));
          (score, factors) =
            (if location_applies profile
             then (score + locationScore job profile * (15 / 100), factors + 15 / 100)
             else (score, factors));
          (score, factors) =
            (if jobType_applies profile
             then (score + jobTypeScore job profile * (1 / 10), factors + 1 / 10)
             else (score, factors))
      in (score, factors))"

definition calculateMatchScore :: "date \<Rightarrow> Job \<Rightarrow> JobSeekerProfile \<Rightarrow> int" where
  "calculateMatchScore now job profile =
     (let (score, factors) = weightedFactors now job profile;
          score = (if factors > 0 \<and> factors < 1 then score / factors else score)
      in Math_round score)"

subsection \<open>The reasons\<close>

text \<open>Each block of \<^verbatim>\<open>getMatchReasons\<close> pushes one string or none; the function below
  it gives the strings the block pushes.\<close>

definition skillsReason :: "Job \<Rightarrow> JobSeekerProfile \<Rightarrow> string list" where
  "skillsReason job profile =
     (if skills_applies job profile then
        (let profileSkills =
               map toLowerCase (case skills profile of None \<Rightarrow> [] | Some ss \<Rightarrow> ss);
             jobRequirements = map toLowerCase (jobSkills job);
             matched = matchedSkills profileSkills jobRequirements
         in if length matched > 0
            then [''Skills match: '' @ join '', '' (take 3 matched)]
            else [])
      else [])"

definition experienceReason :: "date \<Rightarrow> JobSeekerProfile \<Rightarrow> string list" where
  "experienceReason now profile =
     (if experience_applies profile then
        (case calculateTotalExperience now (experience profile) of
           None \<Rightarrow> []
         | Some totalYears \<Rightarrow>
             if totalYears > 0
             then [decimal (nat (Math_round totalYears)) @ '' years of experience'']
             else [])
      else [])"

definition locationReason :: "Job \<Rightarrow> JobSeekerProfile \<Rightarrow> string list" where
  "locationReason job profile =
     (if job_remote job then [''Remote work available'']
      else if location_applies profile then
        (let profileCity = profile_city profile;
             jobCity = job_city job
         in if profileCity \<noteq> [] \<and> jobCity \<noteq> [] \<and>
               (str_includes jobCity profileCity \<or> str_includes profileCity jobCity)
            then [''Location matches preference'']
            else [])
      else [])"

definition jobTypeReason :: "Job \<Rightarrow> JobSeekerProfile \<Rightarrow> string list" where
  "jobTypeReason job profile =
     (if jobType_applies profile then
        (if prefers_type profile job
         then [''Matches preferred job type: '' @ or_empty (jobType job)]
         else [])
      else [])"

text \<open>The salary block: \<^verbatim>\<open>profile.expectedSalary && job.salary && job.salary.min &&
  job.salary.max\<close>, then \<^verbatim>\<open>job.salary.max >= expectedMin\<close> with
  \<^verbatim>\<open>expectedMin = profile.expectedSalary.min || 0\<close>.\<close>

definition salaryReason :: "Job \<Rightarrow> JobSeekerProfile \<Rightarrow> string list" where
  "salaryReason job profile =
     (case expectedSalary profile of
        None \<Rightarrow> []
      | Some es \<Rightarrow>
          (case salary job of
             None \<Rightarrow> []
           | Some js \<Rightarrow>
               if truthy (smin js) \<and> truthy (smax js) then
                 (let expectedMin = or_zero (smin es)
                  in if num_ge (smax js) expectedMin then [''Salary in expected range'']
                     else [])
               else []))"

definition getMatchReasons :: "date \<Rightarrow> Job \<Rightarrow> JobSeekerProfile \<Rightarrow> string list" where
  "getMatchReasons now job profile =
     (let reasons = [];
          reasons = reasons @ skillsReason job profile;
          reasons = reasons @ experienceReason now profile;
          reasons = reasons @ locationReason job profile;
          reasons = reasons @ jobTypeReason job profile;
          reasons = reasons @ salaryReason job profile;
          reasons = (if length reasons = 0 then reasons @ [''New opportunity''] else reasons)
      in reasons)"

subsection \<open>The document store and its queries\<close>

text \<open>The three collections, each in the order in which the store returns its
  documents. The store (MongoDB behind mongoose) is outside the repository; the query
  operators the code calls are modelled as follows.
  \<^item> \<^verbatim>\<open>findOne\<close>, \<^verbatim>\<open>findById\<close>: the first document that satisfies the filter, or \<open>None\<close>.
  \<^item> \<^verbatim>\<open>find\<close>: the documents that satisfy the filter, in the collection's order.
  \<^item> \<^verbatim>\<open>sort({createdAt: -1})\<close>: descending by \<open>createdAt\<close>, equal keys in the
    collection's order.
  \<^item> \<^verbatim>\<open>limit(n)\<close>: the first \<open>|n|\<close> documents; \<open>n = 0\<close> sets no limit.\<close>

record Store =
  jobs :: "Job list"
  profiles :: "JobSeekerProfile list"
  applications :: "Application list"

definition findProfile :: "Store \<Rightarrow> string \<Rightarrow> JobSeekerProfile option" where
  "findProfile db userId = find (\<lambda>p. user p = userId) (profiles db)"

definition findById :: "Store \<Rightarrow> string \<Rightarrow> Job option" where
  "findById db jobId = find (\<lambda>j. job_id j = jobId) (jobs db)"

definition sortCreatedDesc :: "Job list \<Rightarrow> Job list" where
  "sortCreatedDesc js = sort_key (\<lambda>j. - createdAt j) js"

definition mongo_limit :: "int \<Rightarrow> 'a list \<Rightarrow> 'a list" where
  "mongo_limit n xs = (if n = 0 then xs else take (nat \<bar>n\<bar>) xs)"

text \<open>\<^verbatim>\<open>xs.slice(0, stop)\<close> for an integer \<open>stop\<close>: a negative \<open>stop\<close> counts from the end of
  the array.\<close>

definition slice0 :: "'a list \<Rightarrow> int \<Rightarrow> 'a list" where
  "slice0 xs stop =
     (if stop < 0 then take (nat (max (int (length xs) + stop) 0)) xs
      else take (nat stop) xs)"

text \<open>\<^verbatim>\<open>xs.sort((a, b) => f(b) - f(a))\<close>: descending by \<open>f\<close>; the sort of an array is
  stable, so equal keys keep their order.\<close>

definition sortDesc :: "('a \<Rightarrow> 'k::linordered_ab_group_add) \<Rightarrow> 'a list \<Rightarrow> 'a list" where
  "sortDesc f xs = sort_key (\<lambda>x. - f x) xs"

subsection \<open>Recommendations\<close>

record ScoredJob =
  job :: Job
  matchScore :: int
  matchReasons :: "string list"

definition coldStart :: "Job \<Rightarrow> ScoredJob" where
  "coldStart j = \<lparr>job = j, matchScore = 50, matchReasons = [''New job posting'']\<rparr>"

definition scoreJob :: "date \<Rightarrow> JobSeekerProfile \<Rightarrow> Job \<Rightarrow> ScoredJob" where
  "scoreJob now profile j =
     \<lparr>job = j, matchScore = calculateMatchScore now j profile,
      matchReasons = getMatchReasons now j profile\<rparr>"

text \<open>The ids of the jobs the user has applied to, and the active jobs outside that
  list (\<^verbatim>\<open>$nin\<close>).\<close>

definition appliedJobIds :: "Store \<Rightarrow> string \<Rightarrow> string list" where
  "appliedJobIds db userId = map app_job (filter (\<lambda>a. jobSeeker a = userId) (applications db))"

definition candidateJobs :: "Store \<Rightarrow> string \<Rightarrow> Job list" where
  "candidateJobs db userId =
     filter (\<lambda>j. status j = ''active'' \<and> job_id j \<notin> set (appliedJobIds db userId))
       (jobs db)"

definition getJobRecommendations :: "Store \<Rightarrow> date \<Rightarrow> string \<Rightarrow> int \<Rightarrow> ScoredJob list" where
  "getJobRecommendations db now userId limit =
     (case findProfile db userId of
        None \<Rightarrow>
          (let js = mongo_limit limit
                      (sortCreatedDesc (filter (\<lambda>j. status j = ''active'') (jobs db)))
           in map coldStart js)
      | Some profile \<Rightarrow>
          (let js = candidateJobs db userId;
               scoredJobs = map (scoreJob now profile) js;
               scoredJobs = sortDesc matchScore scoredJobs
           in slice0 scoredJobs limit))"

subsection \<open>Similar jobs\<close>

text \<open>The body of the \<^verbatim>\<open>map\<close> callback of \<^verbatim>\<open>getSimilarJobs\<close> scores one candidate
  \<open>j\<close> against the reference job. Each of its four blocks adds to \<open>score\<close> or leaves
  it; the function below gives what the block adds.\<close>

definition typePoints :: "Job \<Rightarrow> Job \<Rightarrow> rat" where
  "typePoints referenceJob j = (if jobType j = jobType referenceJob then 30 else 0)"

definition skillPoints :: "Job \<Rightarrow> Job \<Rightarrow> rat" where
  "skillPoints referenceJob j =
     (let jobSk = jobSkills j;
          refSkills = jobSkills referenceJob
      in if length jobSk > 0 \<and> length refSkills > 0 then
           (let jobReqs = map toLowerCase jobSk;
                refReqs = map toLowerCase refSkills;
                overlap = matchedSkills jobReqs refReqs
            in of_nat (length overlap) / of_nat (max (length refReqs) 1) * 40)
         else 0)"

definition locationPoints :: "Job \<Rightarrow> Job \<Rightarrow> rat" where
  "locationPoints referenceJob j =
     (case location j of
        None \<Rightarrow> 0
      | Some jl \<Rightarrow>
          (case location referenceJob of
             None \<Rightarrow> 0
           | Some rl \<Rightarrow>
               (let jobCity = toLowerCase (or_empty (city jl));
                    refCity = toLowerCase (or_empty (city rl))
                in if jobCity \<noteq> [] \<and> refCity \<noteq> [] \<and> jobCity = refCity then 15
                   else if remote jl \<and> remote rl then 15
                   else 0)))"

definition salaryPoints :: "Job \<Rightarrow> Job \<Rightarrow> rat" where
  "salaryPoints referenceJob j =
     (case salary j of
        None \<Rightarrow> 0
      | Some js \<Rightarrow>
          (case salary referenceJob of
             None \<Rightarrow> 0
           | Some rs \<Rightarrow>
               (let jobMid = (or_zero (smin js) + or_zero (smax js)) / 2;
                    refMid = (or_zero (smin rs) + or_zero (smax rs)) / 2
                in if refMid > 0 \<and> \<bar>jobMid - refMid\<bar> / refMid < 3 / 10 then 15
                   else 0)))"

definition similarityScore :: "Job \<Rightarrow> Job \<Rightarrow> rat" where
  "similarityScore referenceJob j =
     (let score = 0;
          score = score + typePoints referenceJob j;
          score = score + skillPoints referenceJob j;
          score = score + locationPoints referenceJob j;
          score = score + salaryPoints referenceJob j
      in score)"

definition getSimilarJobs :: "Store \<Rightarrow> string \<Rightarrow> int \<Rightarrow> Job list" where
  "getSimilarJobs db jobId limit =
     (case findById db jobId of
        None \<Rightarrow> []
      | Some referenceJob \<Rightarrow>
          (let js = filter (\<lambda>j. job_id j \<noteq> jobId \<and> status j = ''active'') (jobs db);
               scoredJobs = map (\<lambda>j. (j, similarityScore referenceJob j)) js;
               scoredJobs = sortDesc snd scoredJobs
           in map fst (slice0 scoredJobs limit)))"

subsection \<open>Documents used in the examples\<close>

text \<open>A job and a profile with every optional field absent.\<close>

definition emptyJob :: Job where
  "emptyJob =
     \<lparr>job_id = ''j0'', title = None, description = None, requirements = None,
      jobType = None, location = None, salary = None, status = ''active'', createdAt = 0\<rparr>"

definition emptyProfile :: JobSeekerProfile where
  "emptyProfile =
     \<lparr>user = ''u0'', skills = None, experience = None, education = None,
      plocation = None, preferredJobTypes = None, expectedSalary = None\<rparr>"

definition jsJob :: Job where
  "jsJob =
     emptyJob\<lparr>job_id := ''j1'', title := Some ''Web Developer'',
       requirements := Some \<lparr>req_skills = Some [''JavaScript'']\<rparr>,
       jobType := Some ''full-time'',
       location := Some \<lparr>city = Some ''Yangon'', country = Some ''Myanmar'', remote = False\<rparr>,
       createdAt := 10\<rparr>"

definition internJob :: Job where
  "internJob = emptyJob\<lparr>job_id := ''j2'', jobType := Some ''internship'', createdAt := 20\<rparr>"

definition javaProfile :: JobSeekerProfile where
  "javaProfile = emptyProfile\<lparr>user := ''u1'', skills := Some [''java'', ''script'']\<rparr>"

definition fullProfile :: JobSeekerProfile where
  "fullProfile =
     emptyProfile\<lparr>user := ''u2'', skills := Some [''Java''],
       experience :=
         Some [\<lparr>startDate = Some (2020, 0), endDate = Some (2021, 5), current = False\<rparr>],
       education := Some [\<lparr>fieldOfStudy = Some ''Computer Science''\<rparr>],
       plocation := Some \<lparr>city = Some ''Mandalay'', country = Some ''Myanmar'', remote = False\<rparr>,
       preferredJobTypes := Some [''part-time'']\<rparr>"

text \<open>A store with two active jobs and two profiles; user \<open>u2\<close> has applied to job
  \<open>j1\<close>, and no profile belongs to user \<open>u3\<close>.\<close>

definition smallStore :: Store where
  "smallStore =
     \<lparr>jobs = [jsJob, internJob], profiles = [javaProfile, fullProfile],
      applications = [\<lparr>app_job = ''j1'', jobSeeker = ''u2''\<rparr>]\<rparr>"


definition reactJob :: Job where
  "reactJob =
     emptyJob\<lparr>job_id := ''j3'', requirements := Some \<lparr>req_skills = Some [''React'']\<rparr>,
       jobType := Some ''full-time''\<rparr>"

definition reactNativeJob :: Job where
  "reactNativeJob =
     emptyJob\<lparr>job_id := ''j4'',
       requirements := Some \<lparr>req_skills = Some [''React'', ''React Native'']\<rparr>,
       jobType := Some ''contract''\<rparr>"

definition zeroMinJob :: Job where
  "zeroMinJob = emptyJob\<lparr>salary := Some \<lparr>smin = Some 0, smax = Some 50000\<rparr>\<rparr>"

definition paidJob :: Job where
  "paidJob = emptyJob\<lparr>salary := Some \<lparr>smin = Some 80000, smax = Some 90000\<rparr>\<rparr>"

definition modestProfile :: JobSeekerProfile where
  "modestProfile =
     emptyProfile\<lparr>expectedSalary := Some \<lparr>smin = Some 1000, smax = Some 2000\<rparr>\<rparr>"

definition pythonSqlJob :: Job where
  "pythonSqlJob = emptyJob\<lparr>requirements := Some \<lparr>req_skills = Some [''python'', ''sql'']\<rparr>\<rparr>"

text \<open>The two jobs of the specification's similarity example.\<close>

definition remoteReference :: Job where
  "remoteReference =
     emptyJob\<lparr>job_id := ''j5'', jobType := Some ''remote'',
       requirements := Some \<lparr>req_skills = Some [''react'']\<rparr>,
       location := Some \<lparr>city = None, country = None, remote = True\<rparr>,
       salary := Some \<lparr>smin = Some 80000, smax = Some 100000\<rparr>\<rparr>"

definition remoteCandidate :: Job where
  "remoteCandidate =
     emptyJob\<lparr>job_id := ''j6'', jobType := Some ''remote'',
       requirements := Some \<lparr>req_skills = Some [''react'', ''redux'']\<rparr>,
       location := Some \<lparr>city = None, country = None, remote = True\<rparr>,
       salary := Some \<lparr>smin = Some 85000, smax = Some 105000\<rparr>\<rparr>"

subsection \<open>The terms of the specification\<close>

text \<open>The sum of the weights of the factors that apply: skills 0.40, experience 0.20,
  education 0.15, location 0.15, employment-type preference 0.10.\<close>

definition appliedWeightSum :: "Job \<Rightarrow> JobSeekerProfile \<Rightarrow> rat" where
  "appliedWeightSum j p =
     (if skills_applies j p then 4 / 10 else 0) + (if experience_applies p then 2 / 10 else 0) +
     (if education_applies p then 15 / 100 else 0) + (if location_applies p then 15 / 100 else 0) +
     (if jobType_applies p then 1 / 10 else 0)"

text \<open>The number of the profile's skills that match a required skill of the job.\<close>

definition matchedCount :: "Job \<Rightarrow> JobSeekerProfile \<Rightarrow> nat" where
  "matchedCount j p =
     length (matchedSkills (map toLowerCase (case skills p of None \<Rightarrow> [] | Some ss \<Rightarrow> ss))
               (map toLowerCase (jobSkills j)))"


text \<open>The number of required skills of the candidate \<open>j\<close> that contain, or are contained
  in, a required skill of the reference job.\<close>

definition overlapCount :: "Job \<Rightarrow> Job \<Rightarrow> nat" where
  "overlapCount referenceJob j =
     length (matchedSkills (map toLowerCase (jobSkills j))
               (map toLowerCase (jobSkills referenceJob)))"

text \<open>Both jobs name a city, and the two names are equal up to the case of letters.\<close>

definition sameCity :: "Job \<Rightarrow> Job \<Rightarrow> bool" where
  "sameCity referenceJob j =
     (case (location j, location referenceJob) of
        (Some jl, Some rl) \<Rightarrow>
          (case (city jl, city rl) of
             (Some a, Some b) \<Rightarrow> a \<noteq> [] \<and> b \<noteq> [] \<and> toLowerCase a = toLowerCase b
           | _ \<Rightarrow> False)
      | _ \<Rightarrow> False)"

definition bothRemote :: "Job \<Rightarrow> Job \<Rightarrow> bool" where
  "bothRemote referenceJob j =
     (case (location j, location referenceJob) of
        (Some jl, Some rl) \<Rightarrow> remote jl \<and> remote rl
      | _ \<Rightarrow> False)"

text \<open>The midpoint of a salary range, an absent bound counted as 0; and two ranges
  whose midpoints differ by less than 30 percent of the reference's, which is above 0.\<close>

definition midpoint :: "Salary \<Rightarrow> rat" where
  "midpoint s = (or_zero (smin s) + or_zero (smax s)) / 2"

definition salaryWithin30 :: "Job \<Rightarrow> Job \<Rightarrow> bool" where
  "salaryWithin30 referenceJob j =
     (case (salary j, salary referenceJob) of
        (Some js, Some rs) \<Rightarrow>
          midpoint rs > 0 \<and> \<bar>midpoint js - midpoint rs\<bar> < 3 / 10 * midpoint rs
      | _ \<Rightarrow> False)"

text \<open>The condition of the salary reason as claim C10 words it: the profile has an
  expected salary, the job's salary has both bounds, and the upper bound is at least the
  expected minimum (0 when that is absent).\<close>

definition salary_reason_as_claimed :: "Job \<Rightarrow> JobSeekerProfile \<Rightarrow> bool" where
  "salary_reason_as_claimed j p =
     (case expectedSalary p of
        None \<Rightarrow> False
      | Some es \<Rightarrow>
          (case salary j of
             None \<Rightarrow> False
           | Some js \<Rightarrow>
               (case smin js of
                  None \<Rightarrow> False
                | Some lo \<Rightarrow>
                    (case smax js of None \<Rightarrow> False | Some hi \<Rightarrow> or_zero (smin es) \<le> hi))))"

section \<open>Properties\<close>

subsection \<open>Auxiliary facts\<close>


lemma factors_eq: "snd (weightedFactors now j p) = appliedWeightSum j p"
  by (simp add: weightedFactors_def appliedWeightSum_def)


lemma set_slice0: "set (slice0 xs n) \<subseteq> set xs"
  by (auto simp add: slice0_def dest: in_set_takeD)

lemma set_sortDesc: "set (sortDesc f xs) = set xs"
  by (simp add: sortDesc_def)

lemma mset_sortDesc: "mset (sortDesc f xs) = mset xs"
  by (simp add: sortDesc_def)

lemma sorted_sortDesc: "sorted_wrt (\<lambda>a b. f b \<le> f a) (sortDesc f xs)"
proof -
  have "sorted (map (\<lambda>x. - f x) (sortDesc f xs))"
    unfolding sortDesc_def by (rule sorted_sort_key)
  then show ?thesis
    by (simp add: sorted_map)
qed

lemma stable_sortDesc: "filter (\<lambda>x. f x = k) (sortDesc f xs) = filter (\<lambda>x. f x = k) xs"
proof -
  have "filter (\<lambda>x. - f x = - k) (sort_key (\<lambda>x. - f x) xs) = filter (\<lambda>x. - f x = - k) xs"
    by (rule sort_key_stable)
  then show ?thesis by (simp add: sortDesc_def)
qed

lemma sorted_sortCreatedDesc:
  "sorted_wrt (\<lambda>a b. createdAt b \<le> createdAt a) (sortCreatedDesc js)"
proof -
  have "sorted (map (\<lambda>j. - createdAt j) (sortCreatedDesc js))"
    unfolding sortCreatedDesc_def by (rule sorted_sort_key)
  then show ?thesis by (simp add: sorted_map)
qed

lemma sorted_wrt_take_drop:
  assumes "sorted_wrt R xs"
  shows "sorted_wrt R (take n xs) \<and> (\<forall>a\<in>set (take n xs). \<forall>b\<in>set (drop n xs). R a b)"
proof -
  from assms have "sorted_wrt R (take n xs @ drop n xs)" by simp
  then show ?thesis unfolding sorted_wrt_append by blast
qed

lemma mongo_limit_pos: "0 < n \<Longrightarrow> mongo_limit n xs = take (nat n) xs"
  by (simp add: mongo_limit_def)

subsection \<open>The range of the match score\<close>

text \<open>
  Claim C1: for every job and profile, \<^verbatim>\<open>calculateMatchScore\<close> returns an integer from 0
  to 100. The code does not keep to the upper bound: the skills sub-score divides the
  number of matching profile skills by the number of required skills, so two profile
  skills that both match the single required skill give 200. The job below requires
  \<^verbatim>\<open>JavaScript\<close>; the profile lists \<^verbatim>\<open>java\<close> and \<^verbatim>\<open>script\<close>.
\<close>

theorem C1_score_exceeds_100:
  "calculateMatchScore (2024, 5)
     (emptyJob\<lparr>requirements := Some \<lparr>req_skills = Some [''JavaScript'']\<rparr>\<rparr>)
     (emptyProfile\<lparr>skills := Some [''java'', ''script'']\<rparr>) = 200"
  by code_simp

text \<open>What does hold of the range. The score is never negative, and it is at most 100
  when no more profile skills match than the job requires skills.\<close>

lemma score_eq:
  "fst (weightedFactors now j p) =
     (if skills_applies j p then skillScore j p * (4 / 10) else 0) +
     (if experience_applies p then experienceScore now j p * (2 / 10) else 0) +
     (if education_applies p then educationScore j p * (15 / 100) else 0) +
     (if location_applies p then locationScore j p * (15 / 100) else 0) +
     (if jobType_applies p then jobTypeScore j p * (1 / 10) else 0)"
  by (simp add: weightedFactors_def)

lemma skillScore_nonneg: "0 \<le> skillScore j p"
  by (simp add: skillScore_def Let_def)

lemma skillScore_le:
  assumes "matchedCount j p \<le> length (jobSkills j)"
  shows "skillScore j p \<le> 100"
proof -
  let ?m = "matchedCount j p" and ?n = "max (length (jobSkills j)) 1"
  have "?m \<le> ?n" using assms by simp
  then have "(of_nat ?m :: rat) \<le> of_nat ?n" by (simp only: of_nat_le_iff)
  moreover have "(0::rat) < of_nat ?n" by simp
  ultimately have "(of_nat ?m :: rat) / of_nat ?n \<le> 1" by (simp only: divide_le_eq_1_pos)
  then have "(of_nat ?m :: rat) / of_nat ?n * 100 \<le> 1 * 100"
    by (rule mult_right_mono) simp
  then show ?thesis
    by (simp only: skillScore_def matchedCount_def Let_def length_map mult_1)
qed

lemma experienceScore_range: "0 \<le> experienceScore now j p \<and> experienceScore now j p \<le> 100"
  by (simp add: experienceScore_def Let_def)

lemma educationScore_range: "0 \<le> educationScore j p \<and> educationScore j p \<le> 100"
  by (simp add: educationScore_def)

lemma locationScore_range: "0 \<le> locationScore j p \<and> locationScore j p \<le> 100"
  by (simp add: locationScore_def Let_def)

lemma jobTypeScore_range: "0 \<le> jobTypeScore j p \<and> jobTypeScore j p \<le> 100"
  by (simp add: jobTypeScore_def Let_def)

lemma term_nonneg: "0 \<le> (x::rat) \<Longrightarrow> 0 \<le> w \<Longrightarrow> 0 \<le> (if c then x * w else 0)"
  by simp

lemma term_le:
  "(x::rat) \<le> 100 \<Longrightarrow> 0 \<le> w \<Longrightarrow> (if c then x * w else 0) \<le> 100 * (if c then w else 0)"
  by (simp add: mult_right_mono)

lemma weighted_nonneg: "0 \<le> fst (weightedFactors now j p)"
  unfolding score_eq
  by (intro add_nonneg_nonneg term_nonneg)
    (simp_all add: skillScore_nonneg experienceScore_range educationScore_range
      locationScore_range jobTypeScore_range)

lemma weighted_le:
  assumes "matchedCount j p \<le> length (jobSkills j)"
  shows "fst (weightedFactors now j p) \<le> 100 * appliedWeightSum j p"
proof -
  have "fst (weightedFactors now j p) \<le>
      100 * (if skills_applies j p then 4 / 10 else 0) +
      100 * (if experience_applies p then 2 / 10 else 0) +
      100 * (if education_applies p then 15 / 100 else 0) +
      100 * (if location_applies p then 15 / 100 else 0) +
      100 * (if jobType_applies p then 1 / 10 else 0)"
    unfolding score_eq
    by (intro add_mono term_le)
      (simp_all add: skillScore_le [OF assms] experienceScore_range educationScore_range
        locationScore_range jobTypeScore_range)
  then show ?thesis
    by (simp only: appliedWeightSum_def distrib_left)
qed

lemma appliedWeightSum_range: "0 \<le> appliedWeightSum j p \<and> appliedWeightSum j p \<le> 1"
  by (simp add: appliedWeightSum_def)

lemma Math_round_nonneg: "0 \<le> x \<Longrightarrow> 0 \<le> Math_round x"
  by (simp add: Math_round_def)

lemma Math_round_le_100: "x \<le> 100 \<Longrightarrow> Math_round x \<le> 100"
  by (simp add: Math_round_def floor_le_iff)

theorem score_nonneg: "0 \<le> calculateMatchScore now j p"
proof -
  obtain s f where sf: "weightedFactors now j p = (s, f)"
    by (cases "weightedFactors now j p")
  have s: "0 \<le> s"
    using weighted_nonneg [of now j p] sf by simp
  have "0 \<le> (if 0 < f \<and> f < 1 then s / f else s)"
    using s by simp
  then have "0 \<le> Math_round (if 0 < f \<and> f < 1 then s / f else s)"
    by (rule Math_round_nonneg)
  then show ?thesis
    using sf by (simp add: calculateMatchScore_def)
qed

theorem score_le_100:
  assumes "matchedCount j p \<le> length (jobSkills j)"
  shows "calculateMatchScore now j p \<le> 100"
proof -
  obtain s f where sf: "weightedFactors now j p = (s, f)"
    by (cases "weightedFactors now j p")
  have f: "f = appliedWeightSum j p"
    using factors_eq [of now j p] sf by simp
  have le: "s \<le> 100 * f"
    using weighted_le [OF assms, of now] sf f by simp
  have f1: "f \<le> 1"
    using appliedWeightSum_range [of j p] f by simp
  have "(if 0 < f \<and> f < 1 then s / f else s) \<le> 100"
  proof (cases "0 < f \<and> f < 1")
    case True
    with le show ?thesis by (simp add: pos_divide_le_eq)
  next
    case False
    from le f1 have "s \<le> 100"
      by linarith
    with False show ?thesis by auto
  qed
  then have "Math_round (if 0 < f \<and> f < 1 then s / f else s) \<le> 100"
    by (rule Math_round_le_100)
  then show ?thesis
    using sf by (simp add: calculateMatchScore_def)
qed

theorem score_le_100_witness:
  "matchedCount jsJob fullProfile \<le> length (jobSkills jsJob) \<and>
   calculateMatchScore (2024, 5) jsJob fullProfile \<le> 100"
proof -
  have h: "matchedCount jsJob fullProfile \<le> length (jobSkills jsJob)"
    by code_simp
  from score_le_100 [OF h, of "(2024, 5)"] h show ?thesis
    by blast
qed

text \<open>The skills sub-score of a job that requires \<^verbatim>\<open>python\<close> and \<^verbatim>\<open>sql\<close>: 50 for a
  profile with \<^verbatim>\<open>python\<close>, 100 for a profile with both.\<close>

theorem skills_more_is_better:
  "skillScore pythonSqlJob (emptyProfile\<lparr>skills := Some [''python'']\<rparr>) = 50 \<and>
   skillScore pythonSqlJob (emptyProfile\<lparr>skills := Some [''python'', ''sql'']\<rparr>) = 100"
  by code_simp

subsection \<open>Dependence on the clock\<close>







subsection \<open>The experience factor\<close>

text \<open>
  Claim C3: the expected years of an internship are 0, so that every profile with a
  work history gets the experience sub-score 100 for an internship. In the code the
  entry 0 of the table is replaced by the default 2 (\<^verbatim>\<open>0 || 2\<close>): a profile with three
  months of experience gets 40 for an internship.
\<close>

theorem C3_internship_expects_two_years:
  "expectedYears (emptyJob\<lparr>jobType := Some ''internship''\<rparr>) = 2 \<and>
   experienceScore (2024, 5) (emptyJob\<lparr>jobType := Some ''internship''\<rparr>)
     (emptyProfile\<lparr>experience :=
        Some [\<lparr>startDate = Some (2024, 0), endDate = Some (2024, 3), current = False\<rparr>]\<rparr>) = 40"
  by code_simp

text \<open>What the code does for every job type: one expected year for part-time and
  temporary jobs, three for contracts, two for every other type (internships
  included); the sub-score is 100 from the expected years on, 70 from half of them on,
  and 40 below that or when the total is not a number.\<close>

theorem experience_factor:
  "expectedYears j =
     (if jobType j = Some ''part-time'' \<or> jobType j = Some ''temporary'' then 1
      else if jobType j = Some ''contract'' then 3
      else 2) \<and>
   experienceScore now j p =
     (case calculateTotalExperience now (experience p) of
        None \<Rightarrow> 40
      | Some years \<Rightarrow>
          if expectedYears j \<le> years then 100
          else if expectedYears j / 2 \<le> years then 70
          else 40)"
proof -
  have "expectedYears j =
     (if jobType j = Some ''part-time'' \<or> jobType j = Some ''temporary'' then 1
      else if jobType j = Some ''contract'' then 3
      else 2)"
    by (cases "jobType j") (auto simp add: expectedYears_def jobTypeExpectation_def)
  moreover have "experienceScore now j p =
     (case calculateTotalExperience now (experience p) of
        None \<Rightarrow> 40
      | Some years \<Rightarrow>
          if expectedYears j \<le> years then 100
          else if expectedYears j / 2 \<le> years then 70
          else 40)"
    by (cases "calculateTotalExperience now (experience p)")
      (simp_all add: experienceScore_def num_ge_def Let_def)
  ultimately show ?thesis by blast
qed

text \<open>The example of the specification: for a full-time job, three years of experience
  give 100 and half a year gives 40.\<close>

theorem experience_full_time_example:
  "experienceScore (2024, 0) (emptyJob\<lparr>jobType := Some ''full-time''\<rparr>)
     (emptyProfile\<lparr>experience :=
        Some [\<lparr>startDate = Some (2021, 0), endDate = Some (2024, 0), current = False\<rparr>]\<rparr>) = 100 \<and>
   experienceScore (2024, 0) (emptyJob\<lparr>jobType := Some ''full-time''\<rparr>)
     (emptyProfile\<lparr>experience :=
        Some [\<lparr>startDate = Some (2023, 6), endDate = None, current = True\<rparr>]\<rparr>) = 40"
  by code_simp

subsection \<open>The similarity score\<close>

lemma toLowerCase_Nil: "(toLowerCase s = []) = (s = [])"
  by (simp add: toLowerCase_def)

lemma within_iff:
  fixes a b :: rat
  assumes "0 < b"
  shows "(\<bar>a - b\<bar> / b < 3 / 10) = (\<bar>a - b\<bar> < 3 / 10 * b)"
  using assms by (simp add: pos_divide_less_eq)

lemma skillPoints_eq:
  "skillPoints referenceJob j =
     (if jobSkills j \<noteq> [] \<and> jobSkills referenceJob \<noteq> []
      then 40 * (of_nat (overlapCount referenceJob j) / of_nat (length (jobSkills referenceJob)))
      else 0)"
proof -
  have "jobSkills referenceJob \<noteq> [] \<Longrightarrow>
      max (length (jobSkills referenceJob)) 1 = length (jobSkills referenceJob)"
    by (cases "jobSkills referenceJob") simp_all
  then show ?thesis
    by (simp add: skillPoints_def overlapCount_def Let_def)
qed

lemma locationPoints_eq:
  "locationPoints referenceJob j =
     (if sameCity referenceJob j \<or> bothRemote referenceJob j then 15 else 0)"
  by (cases "location j"; cases "location referenceJob")
    (auto simp add: locationPoints_def sameCity_def bothRemote_def or_empty_def
      toLowerCase_Nil Let_def split: option.splits)

lemma salaryPoints_eq:
  "salaryPoints referenceJob j = (if salaryWithin30 referenceJob j then 15 else 0)"
proof (cases "salary j")
  case None
  then show ?thesis by (simp add: salaryPoints_def salaryWithin30_def)
next
  case js: (Some js)
  show ?thesis
  proof (cases "salary referenceJob")
    case None
    with js show ?thesis by (simp add: salaryPoints_def salaryWithin30_def)
  next
    case (Some rs)
    have "(0 < midpoint rs \<and> \<bar>midpoint js - midpoint rs\<bar> / midpoint rs < 3 / 10) =
        (0 < midpoint rs \<and> \<bar>midpoint js - midpoint rs\<bar> < 3 / 10 * midpoint rs)"
      using within_iff [of "midpoint rs" "midpoint js"] by blast
    then show ?thesis
      using js Some
      by (simp add: salaryPoints_def salaryWithin30_def Let_def midpoint_def [symmetric])
  qed
qed

lemma length_matchedSkills: "length (matchedSkills xs ys) \<le> length xs"
  by (simp add: matchedSkills_def)

text \<open>
  Claim C4, as stated: the skills term of the similarity score is at most 40. The term
  is 40 times the number of the candidate's skills that match, divided by the number of
  the reference job's skills, and a candidate can have more matching skills than the
  reference job has skills. The reference job below requires \<^verbatim>\<open>React\<close>, the candidate
  \<^verbatim>\<open>React\<close> and \<^verbatim>\<open>React Native\<close>; no other term applies, and the score is 80.
\<close>

theorem C4_skills_term_counterexample:
  "jobType reactNativeJob \<noteq> jobType reactJob \<and> \<not> sameCity reactJob reactNativeJob \<and>
   \<not> bothRemote reactJob reactNativeJob \<and> \<not> salaryWithin30 reactJob reactNativeJob \<and>
   similarityScore reactJob reactNativeJob = 80"
  by code_simp

text \<open>
  Claim C4, amended: the similarity score of a candidate is the sum of 30 if its
  employment type equals the reference job's; 40 times the number of its required skills
  that match a required skill of the reference job (either string containing the other,
  case ignored), divided by the number of the reference job's required skills, when both
  jobs have required skills; 15 if both jobs name a city and the names are equal up to
  case, or both jobs are remote; and 15 if the reference job's salary midpoint is above
  0 and the two midpoints differ by less than 30 percent of it. The skills term is not
  bounded by 40: the number of matching skills is bounded by the number of the
  candidate's skills only.
\<close>

theorem C4_similarity_score:
  "similarityScore referenceJob j =
     (if jobType j = jobType referenceJob then 30 else 0)
     + (if jobSkills j \<noteq> [] \<and> jobSkills referenceJob \<noteq> []
        then 40 * (of_nat (overlapCount referenceJob j) / of_nat (length (jobSkills referenceJob)))
        else 0)
     + (if sameCity referenceJob j \<or> bothRemote referenceJob j then 15 else 0)
     + (if salaryWithin30 referenceJob j then 15 else 0) \<and>
   overlapCount referenceJob j \<le> length (jobSkills j)"
proof -
  have "similarityScore referenceJob j =
     (if jobType j = jobType referenceJob then 30 else 0)
     + (if jobSkills j \<noteq> [] \<and> jobSkills referenceJob \<noteq> []
        then 40 * (of_nat (overlapCount referenceJob j) / of_nat (length (jobSkills referenceJob)))
        else 0)
     + (if sameCity referenceJob j \<or> bothRemote referenceJob j then 15 else 0)
     + (if salaryWithin30 referenceJob j then 15 else 0)"
    by (simp only: similarityScore_def Let_def typePoints_def skillPoints_eq locationPoints_eq
        salaryPoints_eq add_0)
  moreover have "overlapCount referenceJob j \<le> length (jobSkills j)"
    using length_matchedSkills [of "map toLowerCase (jobSkills j)"]
    by (simp add: overlapCount_def)
  ultimately show ?thesis by blast
qed

text \<open>The example of the specification: same type, the one reference skill matched,
  both remote, midpoints 90000 and 95000. The score is 100; a job with nothing in common
  scores 0.\<close>

theorem similarity_example:
  "similarityScore remoteReference remoteCandidate = 100 \<and>
   similarityScore remoteReference emptyJob = 0"
  by code_simp

subsection \<open>Normalisation\<close>



subsection \<open>Recommendations without a profile\<close>

text \<open>
  Claim C6: for a user without a profile (and a positive limit) the result lists the
  \<open>limit\<close> most recently created active jobs, or all of them when there are fewer:
  the active jobs split into the listed ones and the rest, the listed ones stand in
  descending order of creation, none of the rest was created after a listed one, and
  every entry has the score 50 and the one reason \<^verbatim>\<open>New job posting\<close>.
\<close>

theorem C6_cold_start:
  assumes "findProfile db userId = None" and "0 < limit"
  shows "\<exists>recent older.
     getJobRecommendations db now userId limit =
       map (\<lambda>j. \<lparr>job = j, matchScore = 50, matchReasons = [''New job posting'']\<rparr>) recent \<and>
     mset (recent @ older) = mset (filter (\<lambda>j. status j = ''active'') (jobs db)) \<and>
     length recent = min (nat limit) (length (filter (\<lambda>j. status j = ''active'') (jobs db))) \<and>
     sorted_wrt (\<lambda>a b. createdAt b \<le> createdAt a) recent \<and>
     (\<forall>a\<in>set recent. \<forall>b\<in>set older. createdAt b \<le> createdAt a)"
proof -
  let ?active = "filter (\<lambda>j. status j = ''active'') (jobs db)"
  let ?sorted = "sortCreatedDesc ?active"
  let ?recent = "take (nat limit) ?sorted"
  let ?older = "drop (nat limit) ?sorted"
  have out: "getJobRecommendations db now userId limit =
      map (\<lambda>j. \<lparr>job = j, matchScore = 50, matchReasons = [''New job posting'']\<rparr>) ?recent"
    using assms by (simp add: getJobRecommendations_def mongo_limit_pos coldStart_def)
  have perm: "mset (?recent @ ?older) = mset ?active"
    by (simp add: sortCreatedDesc_def)
  have len: "length ?recent = min (nat limit) (length ?active)"
    by (simp add: sortCreatedDesc_def min.commute)
  have ord: "sorted_wrt (\<lambda>a b. createdAt b \<le> createdAt a) ?recent \<and>
      (\<forall>a\<in>set ?recent. \<forall>b\<in>set ?older. createdAt b \<le> createdAt a)"
    by (rule sorted_wrt_take_drop) (rule sorted_sortCreatedDesc)
  from out perm len ord show ?thesis by blast
qed

theorem C6_cold_start_witness:
  "findProfile smallStore ''u3'' = None \<and> (0::int) < 1 \<and>
   (\<exists>recent older.
     getJobRecommendations smallStore (2024, 5) ''u3'' 1 =
       map (\<lambda>j. \<lparr>job = j, matchScore = 50, matchReasons = [''New job posting'']\<rparr>) recent \<and>
     mset (recent @ older) = mset (filter (\<lambda>j. status j = ''active'') (jobs smallStore)) \<and>
     length recent
       = min (nat 1) (length (filter (\<lambda>j. status j = ''active'') (jobs smallStore))) \<and>
     sorted_wrt (\<lambda>a b. createdAt b \<le> createdAt a) recent \<and>
     (\<forall>a\<in>set recent. \<forall>b\<in>set older. createdAt b \<le> createdAt a))"
proof -
  have h1: "findProfile smallStore ''u3'' = None"
    by code_simp
  have h2: "(0::int) < 1"
    by simp
  from C6_cold_start [OF h1 h2, of "(2024, 5)"] h1 h2 show ?thesis
    by blast
qed

subsection \<open>Recommendations for a user with a profile\<close>

text \<open>
  Claim C7: for a user with a profile (and a limit that is not negative) the result is
  the list of scored candidates sorted by match score, highest first, cut to its first
  \<open>limit\<close> entries. The sorted list is a rearrangement of the scored candidates, and
  the entries of any one score stand in it in the order of the candidate list. The
  result never has more than \<open>limit\<close> entries.
\<close>

theorem C7_ranked_stable_truncated:
  assumes "findProfile db userId = Some profile" and "0 \<le> limit"
  shows "\<exists>ranked.
      getJobRecommendations db now userId limit = take (nat limit) ranked \<and>
      mset ranked = mset (map (scoreJob now profile) (candidateJobs db userId)) \<and>
      sorted_wrt (\<lambda>a b. matchScore b \<le> matchScore a) ranked \<and>
      (\<forall>k. filter (\<lambda>s. matchScore s = k) ranked =
           filter (\<lambda>s. matchScore s = k)
             (map (scoreJob now profile) (candidateJobs db userId))) \<and>
      length (getJobRecommendations db now userId limit) \<le> nat limit"
proof -
  let ?scored = "map (scoreJob now profile) (candidateJobs db userId)"
  let ?ranked = "sortDesc matchScore ?scored"
  have "getJobRecommendations db now userId limit = take (nat limit) ?ranked"
    using assms by (simp add: getJobRecommendations_def slice0_def)
  moreover have "mset ?ranked = mset ?scored"
    by (rule mset_sortDesc)
  moreover have "sorted_wrt (\<lambda>a b. matchScore b \<le> matchScore a) ?ranked"
    by (rule sorted_sortDesc)
  moreover have "\<forall>k. filter (\<lambda>s. matchScore s = k) ?ranked =
      filter (\<lambda>s. matchScore s = k) ?scored"
    by (simp add: stable_sortDesc)
  moreover have "length (getJobRecommendations db now userId limit) \<le> nat limit"
    using calculation(1) by simp
  ultimately show ?thesis by blast
qed

theorem C7_ranked_stable_truncated_witness:
  "findProfile smallStore ''u1'' = Some javaProfile \<and> (0::int) \<le> 1 \<and>
   (\<exists>ranked.
      getJobRecommendations smallStore (2024, 5) ''u1'' 1 = take (nat 1) ranked \<and>
      mset ranked = mset (map (scoreJob (2024, 5) javaProfile) (candidateJobs smallStore ''u1'')) \<and>
      sorted_wrt (\<lambda>a b. matchScore b \<le> matchScore a) ranked \<and>
      (\<forall>k. filter (\<lambda>s. matchScore s = k) ranked =
           filter (\<lambda>s. matchScore s = k)
             (map (scoreJob (2024, 5) javaProfile) (candidateJobs smallStore ''u1''))) \<and>
      length (getJobRecommendations smallStore (2024, 5) ''u1'' 1) \<le> nat 1)"
proof -
  have h1: "findProfile smallStore ''u1'' = Some javaProfile"
    by code_simp
  have h2: "(0::int) \<le> 1"
    by simp
  from C7_ranked_stable_truncated [OF h1 h2, of "(2024, 5)"] h1 h2 show ?thesis
    by blast
qed

text \<open>
  Claim C8: for a user with a profile, no job the user has applied to is in the
  result.
\<close>

theorem C8_applied_jobs_excluded:
  assumes "findProfile db userId = Some profile"
    and "r \<in> set (getJobRecommendations db now userId limit)"
    and "a \<in> set (applications db)" and "jobSeeker a = userId"
  shows "job_id (job r) \<noteq> app_job a"
proof -
  from assms(1,2) have "r \<in> set (map (scoreJob now profile) (candidateJobs db userId))"
    using set_slice0 [of "sortDesc matchScore (map (scoreJob now profile)
      (candidateJobs db userId))" limit]
    by (auto simp add: getJobRecommendations_def set_sortDesc)
  then obtain j where j: "j \<in> set (candidateJobs db userId)" and r: "r = scoreJob now profile j"
    by auto
  from j have "job_id j \<notin> set (appliedJobIds db userId)"
    by (simp add: candidateJobs_def)
  moreover from assms(3,4) have "app_job a \<in> set (appliedJobIds db userId)"
    by (auto simp add: appliedJobIds_def)
  ultimately show ?thesis
    using r by (auto simp add: scoreJob_def)
qed

theorem C8_applied_jobs_excluded_witness:
  "findProfile smallStore ''u2'' = Some fullProfile \<and>
   scoreJob (2024, 5) fullProfile internJob
     \<in> set (getJobRecommendations smallStore (2024, 5) ''u2'' 10) \<and>
   \<lparr>app_job = ''j1'', jobSeeker = ''u2''\<rparr> \<in> set (applications smallStore) \<and>
   jobSeeker \<lparr>app_job = ''j1'', jobSeeker = ''u2''\<rparr> = ''u2'' \<and>
   job_id (job (scoreJob (2024, 5) fullProfile internJob))
     \<noteq> app_job \<lparr>app_job = ''j1'', jobSeeker = ''u2''\<rparr>"
proof -
  have h1: "findProfile smallStore ''u2'' = Some fullProfile"
    by code_simp
  have h2: "scoreJob (2024, 5) fullProfile internJob
      \<in> set (getJobRecommendations smallStore (2024, 5) ''u2'' 10)"
    by code_simp
  have h3: "\<lparr>app_job = ''j1'', jobSeeker = ''u2''\<rparr> \<in> set (applications smallStore)"
    by code_simp
  have h4: "jobSeeker \<lparr>app_job = ''j1'', jobSeeker = ''u2''\<rparr> = ''u2''"
    by simp
  from C8_applied_jobs_excluded [OF h1 h2 h3 h4] h1 h2 h3 h4 show ?thesis
    by blast
qed

subsection \<open>Similar jobs without a reference job\<close>



text \<open>For a limit that is not negative the result has at most \<open>limit\<close> jobs, and each
  of them is an active job of the store other than the reference job.\<close>

theorem similar_jobs_bounded:
  assumes "0 \<le> limit" and "r \<in> set (getSimilarJobs db jobId limit)"
  shows "length (getSimilarJobs db jobId limit) \<le> nat limit \<and>
         r \<in> set (jobs db) \<and> status r = ''active'' \<and> job_id r \<noteq> jobId"
proof (cases "findById db jobId")
  case None
  with assms(2) show ?thesis by (simp add: getSimilarJobs_def)
next
  case (Some ref)
  let ?js = "filter (\<lambda>j. job_id j \<noteq> jobId \<and> status j = ''active'') (jobs db)"
  let ?ranked = "sortDesc snd (map (\<lambda>j. (j, similarityScore ref j)) ?js)"
  have out: "getSimilarJobs db jobId limit = map fst (slice0 ?ranked limit)"
    using Some by (simp add: getSimilarJobs_def)
  have len: "length (getSimilarJobs db jobId limit) \<le> nat limit"
    using assms(1) by (simp add: out slice0_def)
  from assms(2) have "r \<in> fst ` set (slice0 ?ranked limit)"
    by (simp add: out)
  then have "r \<in> fst ` set ?ranked"
    using set_slice0 [of ?ranked limit] by blast
  then have "r \<in> set ?js"
    by (auto simp add: sortDesc_def)
  with len show ?thesis by simp
qed

theorem similar_jobs_bounded_witness:
  "(0::int) \<le> 5 \<and> internJob \<in> set (getSimilarJobs smallStore ''j1'' 5) \<and>
   length (getSimilarJobs smallStore ''j1'' 5) \<le> nat 5 \<and>
   internJob \<in> set (jobs smallStore) \<and> status internJob = ''active'' \<and>
   job_id internJob \<noteq> ''j1''"
proof -
  have h1: "(0::int) \<le> 5"
    by simp
  have h2: "internJob \<in> set (getSimilarJobs smallStore ''j1'' 5)"
    by code_simp
  from similar_jobs_bounded [OF h1 h2] h1 h2 show ?thesis
    by blast
qed

subsection \<open>The salary reason\<close>

lemma digit_not_S: "n < 10 \<Longrightarrow> char_of (48 + n :: nat) \<noteq> CHR ''S''"
proof
  assume n: "n < 10" and "char_of (48 + n) = CHR ''S''"
  then have "(of_char (char_of (48 + n)) :: nat) = of_char CHR ''S''" by simp
  with n show False by simp
qed

lemma digits_no_S: "CHR ''S'' \<notin> set (digits fuel n)"
proof (induction fuel arbitrary: n)
  case 0
  then show ?case by simp
next
  case (Suc fuel)
  have "n mod 10 < 10" by simp
  then have "char_of (48 + n mod 10) \<noteq> CHR ''S''" by (rule digit_not_S)
  with Suc show ?case using digit_not_S [of n] by auto
qed

lemma years_not_salary:
  "decimal n @ '' years of experience'' \<noteq> ''Salary in expected range''"
proof (cases "decimal n")
  case Nil
  then show ?thesis by simp
next
  case (Cons c cs)
  then have "c \<in> set (digits (Suc n) n)" by (simp add: decimal_def)
  with digits_no_S [of "Suc n" n] have "c \<noteq> CHR ''S''" by blast
  with Cons show ?thesis by simp
qed

lemma skillsReason_no_salary: "''Salary in expected range'' \<notin> set (skillsReason j p)"
  by (simp add: skillsReason_def Let_def)

lemma experienceReason_shape:
  "experienceReason now p = [] \<or>
   (\<exists>n. experienceReason now p = [decimal n @ '' years of experience''])"
  unfolding experienceReason_def
  by (cases "calculateTotalExperience now (experience p)") auto

lemma experienceReason_no_salary:
  "''Salary in expected range'' \<notin> set (experienceReason now p)"
proof -
  from experienceReason_shape [of now p] show ?thesis
  proof
    assume "experienceReason now p = []"
    then show ?thesis by simp
  next
    assume "\<exists>n. experienceReason now p = [decimal n @ '' years of experience'']"
    then obtain n where e: "experienceReason now p = [decimal n @ '' years of experience'']" ..
    show ?thesis
      unfolding e using years_not_salary [of n] by (metis set_ConsD empty_iff empty_set)
  qed
qed

lemma locationReason_no_salary: "''Salary in expected range'' \<notin> set (locationReason j p)"
  by (simp add: locationReason_def Let_def)

lemma jobTypeReason_no_salary: "''Salary in expected range'' \<notin> set (jobTypeReason j p)"
  by (simp add: jobTypeReason_def)

lemma salary_member:
  "(''Salary in expected range'' \<in> set (getMatchReasons now j p)) =
   (''Salary in expected range'' \<in> set (salaryReason j p))"
  using skillsReason_no_salary [of j p] experienceReason_no_salary [of now p]
    locationReason_no_salary [of j p] jobTypeReason_no_salary [of j p]
  by (auto simp add: getMatchReasons_def Let_def)

text \<open>
  Claim C10, as stated: the reason \<^verbatim>\<open>Salary in expected range\<close> is given exactly when
  the profile has an expected salary, the job's salary has both bounds, and the upper
  bound is at least the expected minimum. The code tests the two bounds for truthiness,
  so a bound that is present and 0 counts as absent: for the job below, with the salary
  range 0 to 50000, and a profile that expects at least 1000, the reason is not given.
\<close>

theorem C10_zero_minimum_counterexample:
  "salary_reason_as_claimed zeroMinJob modestProfile \<and>
   ''Salary in expected range'' \<notin> set (getMatchReasons (2024, 5) zeroMinJob modestProfile)"
  by code_simp

text \<open>
  Claim C10, amended: the reason \<^verbatim>\<open>Salary in expected range\<close> is given exactly when
  the profile has an expected salary, the job's salary has both bounds and neither is 0,
  and the upper bound is at least the expected minimum (0 when that is absent). The
  expected maximum is not consulted: replacing it by any value, or removing it, leaves
  the reason as it was.
\<close>

theorem C10_salary_reason:
  "((''Salary in expected range'' \<in> set (getMatchReasons now j p)) =
      (\<exists>es js lo hi. expectedSalary p = Some es \<and> salary j = Some js \<and>
         smin js = Some lo \<and> lo \<noteq> 0 \<and> smax js = Some hi \<and> hi \<noteq> 0 \<and>
         or_zero (smin es) \<le> hi)) \<and>
   ((''Salary in expected range''
        \<in> set (getMatchReasons now j
                 (p\<lparr>expectedSalary := map_option (\<lambda>es. es\<lparr>smax := m\<rparr>) (expectedSalary p)\<rparr>))) =
      (''Salary in expected range'' \<in> set (getMatchReasons now j p)))"
proof -
  have cond: "(''Salary in expected range'' \<in> set (salaryReason j q)) =
      (\<exists>es js lo hi. expectedSalary q = Some es \<and> salary j = Some js \<and>
         smin js = Some lo \<and> lo \<noteq> 0 \<and> smax js = Some hi \<and> hi \<noteq> 0 \<and>
         or_zero (smin es) \<le> hi)" for q
    by (cases "expectedSalary q"; cases "salary j")
      (auto simp add: salaryReason_def truthy_def num_ge_def Let_def split: option.splits)
  have indep: "salaryReason j
      (p\<lparr>expectedSalary := map_option (\<lambda>es. es\<lparr>smax := m\<rparr>) (expectedSalary p)\<rparr>)
      = salaryReason j p"
    by (cases "expectedSalary p"; cases "salary j") (simp_all add: salaryReason_def)
  show ?thesis
    by (simp only: salary_member indep cond)
qed

text \<open>The reason is given also when the whole salary range of the job lies above the
  expected maximum: the job pays 80000 to 90000, the profile expects 1000 to 2000.\<close>

lemma salary_above_expected_maximum:
  "expectedSalary modestProfile = Some \<lparr>smin = Some 1000, smax = Some 2000\<rparr> \<and>
   salary paidJob = Some \<lparr>smin = Some 80000, smax = Some 90000\<rparr> \<and>
   ''Salary in expected range'' \<in> set (getMatchReasons (2024, 5) paidJob modestProfile)"
  by code_simp

text \<open>The list of reasons is never empty.\<close>

theorem reasons_nonempty: "getMatchReasons now j p \<noteq> []"
  by (simp add: getMatchReasons_def Let_def)

end
